theory Spec2Isabelle
  imports Main
begin

section \<open>JavaScript strings and small helpers\<close>

text \<open>
  Strings are character lists. The source's message literals that are not ASCII are
  written with one \<open>U+XXXX\<close> escape per code point; no property below looks inside them.
\<close>

definition CR :: char where "CR = CHR 0x0D"
definition LF :: char where "LF = CHR 0x0A"
definition CRLF :: string where "CRLF = [CR, LF]"

text \<open>Truthiness of an optional string: \<open>undefined\<close> and the empty string are falsy.\<close>

definition truthy :: "string option \<Rightarrow> bool" where
  "truthy v = (case v of None \<Rightarrow> False | Some s \<Rightarrow> s \<noteq> [])"

text \<open>The expression \<open>v || d\<close> for an optional string \<open>v\<close>.\<close>

definition or_else :: "string option \<Rightarrow> string \<Rightarrow> string" where
  "or_else v d = (case v of None \<Rightarrow> d | Some s \<Rightarrow> if s \<noteq> [] then s else d)"

text \<open>
  \<open>String.prototype.split\<close> with a string separator: the leftmost occurrences, not
  overlapping; an empty separator splits into single characters.
\<close>

function js_split :: "string \<Rightarrow> string \<Rightarrow> string list" where
  "js_split sep [] = (if sep = [] then [] else [[]])"
| "js_split sep (x # xs) =
     (if sep = [] then map (\<lambda>c. [c]) (x # xs)
      else if take (length sep) (x # xs) = sep
        then [] # js_split sep (drop (length sep) (x # xs))
      else (case js_split sep xs of [] \<Rightarrow> [[x]] | y # ys \<Rightarrow> (x # y) # ys))"
  by pat_completeness auto
termination
  by (relation "measure (\<lambda>(sep, s). length s)") (auto simp: neq_Nil_conv)

definition starts_with :: "string \<Rightarrow> string \<Rightarrow> bool" where
  "starts_with s p = (take (length p) s = p)"

definition ends_with :: "string \<Rightarrow> string \<Rightarrow> bool" where
  "ends_with s p = (length p \<le> length s \<and> drop (length s - length p) s = p)"

fun js_includes :: "string \<Rightarrow> string \<Rightarrow> bool" where
  "js_includes [] sub = (sub = [])"
| "js_includes (x # xs) sub = (starts_with (x # xs) sub \<or> js_includes xs sub)"

text \<open>Decimal rendering of a number inside a template literal.\<close>

function show_nat :: "nat \<Rightarrow> string" where
  "show_nat n = (if n < 10 then [''0123456789'' ! n]
                 else show_nat (n div 10) @ [''0123456789'' ! (n mod 10)])"
  by pat_completeness auto
termination
  by (relation "measure (\<lambda>n. n)") auto

declare show_nat.simps [simp del]

definition js_num :: "nat option \<Rightarrow> string" where
  "js_num v = (case v of None \<Rightarrow> ''undefined'' | Some n \<Rightarrow> show_nat n)"

text \<open>\<open>Array.prototype.findIndex\<close>; the result \<open>-1\<close> is \<open>None\<close>.\<close>

fun findIndex :: "('a \<Rightarrow> bool) \<Rightarrow> 'a list \<Rightarrow> nat option" where
  "findIndex P [] = None"
| "findIndex P (x # xs) = (if P x then Some 0 else map_option Suc (findIndex P xs))"

text \<open>In-place update of the element at an index that \<open>findIndex\<close> has just returned.\<close>

definition update_row :: "nat \<Rightarrow> ('a \<Rightarrow> 'a) \<Rightarrow> 'a list \<Rightarrow> 'a list" where
  "update_row i f xs = xs[i := f (xs ! i)]"

definition msg_replay_timeout :: string where
  "msg_replay_timeout = ''U+91CDU+653EU+8BF7U+6C42U+8D85U+65F6''"
definition msg_replay_default :: string where
  "msg_replay_default = ''U+91CDU+653EU+8BF7U+6C42U+8D85U+65F6U+6216U+5931U+8D25''"
definition msg_inject_failed :: string where
  "msg_inject_failed = ''U+91CDU+653EU+5931U+8D25: U+65E0U+6CD5U+6CE8U+5165U+811AU+672C''"
definition msg_replay_failed :: string where
  "msg_replay_failed = ''U+91CDU+653EU+8BF7U+6C42U+5931U+8D25: ''"
definition msg_unknown_error :: string where
  "msg_unknown_error = ''U+672AU+77E5U+9519U+8BEF''"
definition msg_continue_failed :: string where
  "msg_continue_failed = ''U+7EE7U+7EEDU+8BF7U+6C42U+5931U+8D25: ''"
definition msg_request_invalid :: string where
  "msg_request_invalid = ''U+8BF7U+6C42U+5DF2U+5931U+6548U+6216U+8D85U+65F6''"
definition msg_process_failed :: string where
  "msg_process_failed = ''U+5904U+7406U+5931U+8D25: ''"
definition msg_auto_completed :: string where
  "msg_auto_completed = ''U+8BF7U+6C42U+5DF2U+81EAU+52A8U+5B8CU+6210U+6216U+8D85U+65F6''"
definition msg_resume_failed :: string where
  "msg_resume_failed = ''U+653EU+884CU+5931U+8D25: ''"

section \<open>Raw request text: \<open>parseRawRequest\<close> and its assembly\<close>

text \<open>A header is the pair of its \<open>name\<close> and its \<open>value\<close>.\<close>

type_synonym header = "string \<times> string"

text \<open>
  The loop of \<open>parseRawRequest\<close> over the lines after the first one, with its three
  variables \<open>isHeaderSection\<close>, \<open>headers\<close> and \<open>body\<close>.
\<close>

fun parse_lines :: "bool \<Rightarrow> header list \<Rightarrow> string option \<Rightarrow> string list
                    \<Rightarrow> header list \<times> string option" where
  "parse_lines isHeaderSection hs body [] = (hs, body)"
| "parse_lines isHeaderSection hs body (line # rest) =
     (if isHeaderSection \<and> line = [] then parse_lines False hs body rest
      else if isHeaderSection then
        (case js_split '': '' line of
           [p0, p1] \<Rightarrow> parse_lines isHeaderSection (hs @ [(p0, p1)]) body rest
         | _ \<Rightarrow> parse_lines isHeaderSection hs body rest)
      else parse_lines isHeaderSection hs
             (Some ((case body of None \<Rightarrow> [] | Some b \<Rightarrow> if b \<noteq> [] then b @ [LF] else []) @ line))
             rest)"

record parsed_request =
  parsed_method :: "string option"
  parsed_url :: "string option"
  parsed_headers :: "header list"
  parsed_postData :: "string option"

definition parseRawRequest :: "string \<Rightarrow> parsed_request" where
  "parseRawRequest rawRequest =
     (let lines = js_split [LF] (filter (\<lambda>c. c \<noteq> CR) rawRequest);
          firstLine = (case lines of [] \<Rightarrow> [] | l # _ \<Rightarrow> l);
          parts = js_split '' '' firstLine;
          (hs, body) = parse_lines True [] None (tl lines)
      in \<lparr> parsed_method = (case parts of [] \<Rightarrow> None | m # _ \<Rightarrow> Some m),
           parsed_url = (case parts of _ # u # _ \<Rightarrow> Some u | _ \<Rightarrow> None),
           parsed_headers = hs,
           parsed_postData = body \<rparr>)"

definition header_line :: "header \<Rightarrow> string" where
  "header_line h = fst h @ '': '' @ snd h @ CRLF"

text \<open>
  The text the router builds for a new exchange: the request line, one line per processed
  header, and, when the captured \<open>postData\<close> is truthy, an empty line and the processed
  body (a template literal renders \<open>undefined\<close> as that word).
\<close>

definition assemble_rawRequest ::
  "string \<Rightarrow> string \<Rightarrow> header list \<Rightarrow> string option \<Rightarrow> string option \<Rightarrow> string" where
  "assemble_rawRequest meth processedUrl processedHeaders postData processedPostData =
     meth @ '' '' @ processedUrl @ '' HTTP/1.1'' @ CRLF
       @ concat (map header_line processedHeaders)
       @ (if truthy postData
          then CRLF @ (case processedPostData of None \<Rightarrow> ''undefined'' | Some b \<Rightarrow> b)
          else [])"

text \<open>The inputs on which the text format is unambiguous.\<close>

fun has_colon_space :: "string \<Rightarrow> bool" where
  "has_colon_space (a # b # cs) = ((a = CHR '':'' \<and> b = CHR '' '') \<or> has_colon_space (b # cs))"
| "has_colon_space _ = False"

definition plain_token :: "string \<Rightarrow> bool" where
  "plain_token s = (CHR '' '' \<notin> set s \<and> CR \<notin> set s \<and> LF \<notin> set s)"

definition plain_header :: "header \<Rightarrow> bool" where
  "plain_header h = (CR \<notin> set (fst h) \<and> LF \<notin> set (fst h) \<and> \<not> has_colon_space (fst h)
                   \<and> CR \<notin> set (snd h) \<and> LF \<notin> set (snd h) \<and> \<not> has_colon_space (snd h))"

definition plain_body :: "string option \<Rightarrow> bool" where
  "plain_body b = (case b of None \<Rightarrow> True
      | Some t \<Rightarrow> take 1 t \<noteq> [LF] \<and> CR \<notin> set t)"

section \<open>Data model\<close>

text \<open>
  The request object of a pause event. Its \<open>headers\<close> object is the list of its entries,
  in the order \<open>Object.entries\<close> enumerates them; the names are distinct.
\<close>

record request =
  url :: string
  method' :: string
  headers :: "header list"
  postData :: "string option"

datatype status = paused | finished

datatype mode = intercept | proxy

text \<open>
  The \<open>request\<close> field of a ledger row is either the request object of the pause event, or,
  on a replay row, the object built from the parsed raw text (whose \<open>url\<close> and \<open>method\<close>
  may be \<open>undefined\<close>).
\<close>

datatype stored_request =
    Captured request
  | Replayed "string option" "string option" "string \<rightharpoonup> string"

record transaction =
  id' :: string
  tabId :: nat
  requestId :: string
  request :: stored_request
  rawRequest :: string
  status :: status
  isRedirect :: bool
  requestHeaders :: "header list"
  rawResponse :: "string option"
  responseHeaders :: "header list option"

text \<open>An entry of \<open>replayDataStore\<close>, keyed by the correlation token.\<close>

record replay_data =
  originalId :: string
  replayId :: string
  rd_headers :: "header list"
  rd_postData :: "string option"
  timeoutId :: nat

text \<open>What the closure \<open>cleanupReplayState\<close> of one replay request has captured.\<close>

record replay_closure =
  cl_replayId :: string
  cl_replayRequestId :: string
  cl_requestDataId :: string

text \<open>Calls that leave the background script, in the order they are made.\<close>

datatype effect =
    ContinueRequest nat string "header list option" "string option"
  | GetResponseBody nat string
  | ApplyProxyToRequest string
  | Broadcast "transaction list"
  | ExecuteScript nat "string option" "string option" string "string option" "header list"

text \<open>
  The variables of \<open>defineBackground\<close>, the host's table of armed timeouts, and the trace
  of outgoing calls.
\<close>

record state =
  mode :: mode
  requestsStore :: "transaction list"
  pendingActions :: "string set"
  replayDataStore :: "string \<rightharpoonup> replay_data"
  replayIdToOriginalIdMap :: "string \<rightharpoonup> string"
  apiWhitelist :: "string list"
  timeouts :: "nat \<rightharpoonup> replay_closure"
  effects :: "effect list"

text \<open>The parameters of a \<open>Fetch.requestPaused\<close> event, with its source and method name.\<close>

record pause_event =
  ev_method :: string
  ev_tabId :: "nat option"
  ev_requestId :: "string option"
  ev_request :: request
  ev_responseStatusCode :: "nat option"
  ev_responseHeaders :: "header list option"
  ev_networkId :: "string option"
  ev_redirectResponse :: bool

section \<open>Content transformation pipeline (regex-handler)\<close>

datatype scope = REQUEST_URL | REQUEST_HEADERS | REQUEST_BODY | RESPONSE_HEADERS | RESPONSE_BODY

text \<open>
  \<open>processContent content scope url requestId\<close> is the rule engine, a parameter here; the
  five wrappers around it are the source's.
\<close>

type_synonym pipeline = "string \<Rightarrow> scope \<Rightarrow> string \<Rightarrow> string \<Rightarrow> string"

definition processUrl :: "pipeline \<Rightarrow> string \<Rightarrow> string \<Rightarrow> string" where
  "processUrl pc u rid = pc u REQUEST_URL u rid"

definition processRequestHeaders ::
  "pipeline \<Rightarrow> header list \<Rightarrow> string \<Rightarrow> string \<Rightarrow> header list" where
  "processRequestHeaders pc hs u rid = map (\<lambda>h. (fst h, pc (snd h) REQUEST_HEADERS u rid)) hs"

definition processRequestBody ::
  "pipeline \<Rightarrow> string option \<Rightarrow> string \<Rightarrow> string \<Rightarrow> string option" where
  "processRequestBody pc body u rid =
     (case body of None \<Rightarrow> None
      | Some b \<Rightarrow> if b = [] then Some b else Some (pc b REQUEST_BODY u rid))"

definition processResponseHeaders ::
  "pipeline \<Rightarrow> header list \<Rightarrow> string \<Rightarrow> string \<Rightarrow> header list" where
  "processResponseHeaders pc hs u rid = map (\<lambda>h. (fst h, pc (snd h) RESPONSE_HEADERS u rid)) hs"

definition processResponseBody :: "pipeline \<Rightarrow> string \<Rightarrow> string \<Rightarrow> string \<Rightarrow> string" where
  "processResponseBody pc body u rid = pc body RESPONSE_BODY u rid"

section \<open>Proxy reconciler (proxy-handler)\<close>

text \<open>
  What \<open>applyProxyToRequest\<close> reads from its surroundings: the stored settings and state,
  the host name of a URL (\<open>None\<close> when \<open>new URL\<close> throws) and whether \<open>setChromeProxy\<close>
  succeeds.
\<close>

record proxy_world =
  settings_enabled :: bool
  settings_bypassList :: "string list"
  state_isOurProxyActive :: bool
  hostname :: "string \<Rightarrow> string option"
  setChromeProxy_ok :: bool

definition shouldBypassProxy :: "proxy_world \<Rightarrow> string \<Rightarrow> string list \<Rightarrow> bool" where
  "shouldBypassProxy w u bypassList =
     (case hostname w u of None \<Rightarrow> False
      | Some h \<Rightarrow> list_ex (\<lambda>rule. rule = h \<or> (starts_with rule ''*.'' \<and> ends_with h (drop 1 rule)))
                   bypassList)"

text \<open>The body of the \<open>try\<close> block: \<open>Inl\<close> when \<open>setChromeProxy\<close> throws, else the value returned.\<close>

definition applyProxyToRequest_try :: "proxy_world \<Rightarrow> request \<Rightarrow> unit + bool" where
  "applyProxyToRequest_try w rq =
     (if \<not> settings_enabled w then
        (if state_isOurProxyActive w \<and> \<not> setChromeProxy_ok w then Inl () else Inr False)
      else if shouldBypassProxy w (url rq) (settings_bypassList w) then Inr False
      else if \<not> state_isOurProxyActive w \<and> \<not> setChromeProxy_ok w then Inl ()
      else Inr False)"

definition applyProxyToRequest :: "proxy_world \<Rightarrow> string \<Rightarrow> request \<Rightarrow> nat \<Rightarrow> bool" where
  "applyProxyToRequest w rid rq tab =
     (case applyProxyToRequest_try w rq of Inl _ \<Rightarrow> False | Inr b \<Rightarrow> b)"

section \<open>The interception event router\<close>

text \<open>
  What the host answers to the calls one \<open>Fetch.requestPaused\<close> handler awaits:
  \<open>continueRequest\<close> is \<open>None\<close> when \<open>Fetch.continueRequest\<close> resolves and the message of
  the rejection otherwise (every path of the handler sends the command at most once);
  \<open>applyProxy\<close> is the proxy reconciler (\<open>Inl\<close> when it throws); \<open>getResponseBody\<close> is the
  answer to \<open>Fetch.getResponseBody\<close>, a body and its \<open>base64Encoded\<close> flag; \<open>decodeBody\<close> is
  the charset lookup and the host's decoders applied to a non-empty body (\<open>Inl\<close> when they
  throw); \<open>btoa_utf8\<close> is the base64 encoding of the replayed body.

  The listener is suspended at \<open>await Fetch.getResponseBody\<close> with the row index it has
  found, and other handlers run before it goes on: the response stage is two steps,
  \<open>requestPaused\<close> up to that await and \<open>completeResponse\<close> from the answer to the end.
  The other awaits of the listener (the reconciler, the pipeline, the resume command) are
  answered within the step.
\<close>

record host =
  continueRequest :: "string option"
  applyProxy :: "string \<Rightarrow> request \<Rightarrow> nat \<Rightarrow> string + bool"
  getResponseBody :: "string + (string \<times> bool)"
  decodeBody :: "header list \<Rightarrow> string \<Rightarrow> bool \<Rightarrow> string + string"
  processContent :: pipeline
  btoa_utf8 :: "string \<Rightarrow> string"

definition emit :: "effect \<Rightarrow> state \<Rightarrow> state" where
  "emit e s = s\<lparr>effects := effects s @ [e]\<rparr>"

definition broadcastRequestsUpdate :: "state \<Rightarrow> state" where
  "broadcastRequestsUpdate s = emit (Broadcast (requestsStore s)) s"

definition isWhitelisted :: "state \<Rightarrow> request \<Rightarrow> bool" where
  "isWhitelisted s rq = list_ex (\<lambda>whitelistedUrl. starts_with (url rq) whitelistedUrl) (apiWhitelist s)"

text \<open>
  The test \<open>replayId && replayDataStore.has(replayId)\<close> on the \<open>X-Replay-Id\<close> header:
  the token and its entry when the correlation is live.
\<close>

definition liveReplay :: "state \<Rightarrow> request \<Rightarrow> (string \<times> replay_data) option" where
  "liveReplay s rq =
     (case map_of (headers rq) ''X-Replay-Id'' of
        None \<Rightarrow> None
      | Some token \<Rightarrow> if token = [] then None
                      else map_option (\<lambda>d. (token, d)) (replayDataStore s token))"

text \<open>A pause event that carries the token of a live correlation.\<close>

definition continueReplay ::
  "host \<Rightarrow> nat \<Rightarrow> string \<Rightarrow> string \<Rightarrow> replay_data \<Rightarrow> state \<Rightarrow> state" where
  "continueReplay h tab rid token replayData s =
     (let s1 = s\<lparr> timeouts := (timeouts s)(timeoutId replayData := None),
                  replayDataStore := (replayDataStore s)(token := None),
                  replayIdToOriginalIdMap := (replayIdToOriginalIdMap s)(rid \<mapsto> originalId replayData),
                  pendingActions := insert (originalId replayData) (pendingActions s) \<rparr>;
          s2 = emit (ContinueRequest tab rid (Some (rd_headers replayData))
                       (if truthy (rd_postData replayData)
                        then map_option (btoa_utf8 h) (rd_postData replayData) else None)) s1
      in case continueRequest h of
           None \<Rightarrow> s2
         | Some e \<Rightarrow> s2\<lparr> replayIdToOriginalIdMap := (replayIdToOriginalIdMap s2)(rid := None),
                         pendingActions := pendingActions s2 - {originalId replayData} \<rparr>)"

definition uniqueId_of :: "state \<Rightarrow> nat \<Rightarrow> string \<Rightarrow> pause_event \<Rightarrow> string" where
  "uniqueId_of s tab rid ev =
     or_else (replayIdToOriginalIdMap s rid)
       (or_else (ev_networkId ev) (show_nat tab @ ''-'' @ rid))"

text \<open>
  The \<open>try\<close> block of the response stage: \<open>Inl\<close> the message of what was thrown, else the
  raw response text and the processed response headers.
\<close>

definition responseText ::
  "host \<Rightarrow> pause_event \<Rightarrow> header list \<Rightarrow> string \<Rightarrow> string + (string \<times> header list)" where
  "responseText h ev rhs rid =
     (case getResponseBody h of
        Inl e \<Rightarrow> Inl e
      | Inr (body, base64Encoded) \<Rightarrow>
          (case (if body \<noteq> [] then decodeBody h rhs body base64Encoded else Inr []) of
             Inl e \<Rightarrow> Inl e
           | Inr responseBodyText \<Rightarrow>
               (let processedResponseHeaders =
                      processResponseHeaders (processContent h) rhs (url (ev_request ev)) rid;
                    processedResponseBody =
                      processResponseBody (processContent h) responseBodyText (url (ev_request ev)) rid
                in Inr (''HTTP/1.1 '' @ js_num (ev_responseStatusCode ev) @ CRLF
                          @ concat (map header_line processedResponseHeaders)
                          @ CRLF @ processedResponseBody,
                        processedResponseHeaders))))"

text \<open>
  What the listener has captured when it is suspended at \<open>await Fetch.getResponseBody\<close>.
\<close>

record response_pending =
  rs_tab :: nat
  rs_requestId :: string
  rs_uniqueId :: string
  rs_existingRequestIndex :: nat
  rs_event :: pause_event
  rs_responseHeaders :: "header list"

text \<open>
  From the answer of the host to the end of the listener, on the state of that moment.
  Both the \<open>try\<close> block and the \<open>catch\<close> block write through the index captured before
  the await. When the ledger no longer has that index the write throws, in the \<open>catch\<close>
  block too: the \<open>finally\<close> block runs, the exception leaves the listener and
  \<open>Fetch.continueRequest\<close> is not sent.
\<close>

definition completeResponse :: "host \<Rightarrow> response_pending \<Rightarrow> state \<Rightarrow> state" where
  "completeResponse h k s =
     (let existingRequestIndex = rs_existingRequestIndex k;
          written = (existingRequestIndex < length (requestsStore s));
          s1 = (if written then
                  (case responseText h (rs_event k) (rs_responseHeaders k) (rs_requestId k) of
                     Inr (rawResp, processedResponseHeaders) \<Rightarrow>
                       s\<lparr>requestsStore := update_row existingRequestIndex
                            (\<lambda>r. r\<lparr>rawResponse := Some rawResp, status := finished,
                                    responseHeaders := Some processedResponseHeaders\<rparr>)
                            (requestsStore s)\<rparr>
                   | Inl e \<Rightarrow>
                       s\<lparr>requestsStore := update_row existingRequestIndex
                            (\<lambda>r. r\<lparr>rawResponse := Some (''Error getting response body: '' @ e),
                                    status := finished\<rparr>)
                            (requestsStore s)\<rparr>)
                else s);
          s2 = broadcastRequestsUpdate
                 (s1\<lparr> pendingActions := pendingActions s1 - {rs_uniqueId k},
                       replayIdToOriginalIdMap :=
                         (replayIdToOriginalIdMap s1)(rs_requestId k := None) \<rparr>)
      in if written then emit (ContinueRequest (rs_tab k) (rs_requestId k) None None) s2
         else s2)"

text \<open>The row built for a new exchange.\<close>

definition newRequestRow ::
  "host \<Rightarrow> mode \<Rightarrow> nat \<Rightarrow> string \<Rightarrow> string \<Rightarrow> pause_event \<Rightarrow> transaction" where
  "newRequestRow h m tab rid uniqueId ev =
     (let rq = ev_request ev;
          processedUrl = processUrl (processContent h) (url rq) rid;
          requestHeaders =
            map (\<lambda>kv. hd (processRequestHeaders (processContent h) [kv] (url rq) rid)) (headers rq);
          processedPostData =
            (if truthy (postData rq)
             then processRequestBody (processContent h) (postData rq) (url rq) rid
             else postData rq)
      in \<lparr> id' = uniqueId, tabId = tab, requestId = rid, request = Captured rq,
           rawRequest = assemble_rawRequest (method' rq) processedUrl requestHeaders
                          (postData rq) processedPostData,
           status = (if m = proxy then finished else paused),
           isRedirect = ev_redirectResponse ev,
           requestHeaders = requestHeaders,
           rawResponse = None, responseHeaders = None \<rparr>)"

definition newRequest ::
  "host \<Rightarrow> nat \<Rightarrow> string \<Rightarrow> string \<Rightarrow> pause_event \<Rightarrow> state \<Rightarrow> state" where
  "newRequest h tab rid uniqueId ev s =
     (let s1 = broadcastRequestsUpdate
                 (s\<lparr>requestsStore := requestsStore s @ [newRequestRow h (mode s) tab rid uniqueId ev]\<rparr>)
      in if mode s = proxy then
           (let s2 = emit (ContinueRequest tab rid None None) s1
            in case continueRequest h of
                 None \<Rightarrow> s2
               | Some e \<Rightarrow>
                   (case findIndex (\<lambda>r. id' r = uniqueId) (requestsStore s2) of
                      None \<Rightarrow> s2
                    | Some index \<Rightarrow>
                        broadcastRequestsUpdate
                          (s2\<lparr>requestsStore := update_row index
                               (\<lambda>r. r\<lparr>status := finished,
                                       rawResponse := Some (msg_continue_failed @ e)\<rparr>)
                               (requestsStore s2)\<rparr>)))
         else s1)"

text \<open>
  The last part of the listener: the response stage, up to its await, or the request
  stage. The second component is what a suspended listener has captured.
\<close>

definition dispatchStage ::
  "host \<Rightarrow> nat \<Rightarrow> string \<Rightarrow> string \<Rightarrow> nat option \<Rightarrow> pause_event \<Rightarrow> state
     \<Rightarrow> state \<times> response_pending option" where
  "dispatchStage h tab rid uniqueId existingRequestIndex ev s =
     (case ev_responseHeaders ev of
        Some rhs \<Rightarrow>
          (case existingRequestIndex of
             Some i \<Rightarrow>
               (emit (GetResponseBody tab rid) s,
                Some \<lparr> rs_tab = tab, rs_requestId = rid, rs_uniqueId = uniqueId,
                       rs_existingRequestIndex = i, rs_event = ev, rs_responseHeaders = rhs \<rparr>)
           | None \<Rightarrow> (s, None))
      | None \<Rightarrow>
          (case existingRequestIndex of
             Some i \<Rightarrow>
               (s\<lparr>requestsStore := update_row i (\<lambda>r. r\<lparr>requestId := rid\<rparr>) (requestsStore s)\<rparr>,
                None)
           | None \<Rightarrow> (newRequest h tab rid uniqueId ev s, None)))"

text \<open>The part of the listener after the replay check.\<close>

definition routePause ::
  "host \<Rightarrow> nat \<Rightarrow> string \<Rightarrow> pause_event \<Rightarrow> state \<Rightarrow> state \<times> response_pending option" where
  "routePause h tab rid ev s =
     (let uniqueId = uniqueId_of s tab rid ev;
          existingRequestIndex = findIndex (\<lambda>r. id' r = uniqueId) (requestsStore s)
      in if ev_responseHeaders ev = None \<and> \<not> ev_redirectResponse ev then
           (let s1 = emit (ApplyProxyToRequest rid) s
            in case applyProxy h rid (ev_request ev) tab of
                 Inr True \<Rightarrow> (s1, None)
               | _ \<Rightarrow> dispatchStage h tab rid uniqueId existingRequestIndex ev s1)
         else dispatchStage h tab rid uniqueId existingRequestIndex ev s)"

text \<open>
  The listener of \<open>chrome.debugger.onEvent\<close>, up to its return or to its suspension at
  \<open>await Fetch.getResponseBody\<close>.
\<close>

definition requestPaused ::
  "host \<Rightarrow> pause_event \<Rightarrow> state \<Rightarrow> state \<times> response_pending option" where
  "requestPaused h ev s =
     (if ev_method ev \<noteq> ''Fetch.requestPaused'' then (s, None)
      else case ev_tabId ev of
        None \<Rightarrow> (s, None)
      | Some tab \<Rightarrow>
          if tab = 0 then (s, None)
          else case ev_requestId ev of
            None \<Rightarrow> (s, None)
          | Some rid \<Rightarrow>
              if rid = [] then (s, None)
              else if isWhitelisted s (ev_request ev)
                then (emit (ContinueRequest tab rid None None) s, None)
              else case liveReplay s (ev_request ev) of
                Some (token, replayData) \<Rightarrow> (continueReplay h tab rid token replayData s, None)
              | None \<Rightarrow> routePause h tab rid ev s)"

text \<open>The state in which that step leaves the background script.\<close>

definition onEvent :: "host \<Rightarrow> pause_event \<Rightarrow> state \<Rightarrow> state" where
  "onEvent h ev s = fst (requestPaused h ev s)"

section \<open>The message handlers of the user interface\<close>

text \<open>
  \<open>resume-request\<close> awaits \<open>Fetch.continueRequest\<close> with the pending entry set, so it is
  two steps: \<open>resume_request\<close> runs up to the await and returns what the suspended
  invocation has captured (the row index and the id), or \<open>None\<close> when the invocation is
  over; \<open>resume_request_complete\<close> runs from the answer of the host to the end of the
  \<open>finally\<close> block.
\<close>

record resume_pending =
  rp_requestIndex :: nat
  rp_id :: string

definition resume_request ::
  "transaction \<Rightarrow> string \<Rightarrow> header list option \<Rightarrow> state \<Rightarrow> state \<times> resume_pending option" where
  "resume_request requestData rawText hdrs s =
     (if id' requestData \<in> pendingActions s then (s, None)
      else
        (let s1 = s\<lparr>pendingActions := insert (id' requestData) (pendingActions s)\<rparr>
         in case findIndex (\<lambda>r. id' r = id' requestData) (requestsStore s1) of
              None \<Rightarrow> (s1\<lparr>pendingActions := pendingActions s1 - {id' requestData}\<rparr>, None)
            | Some requestIndex \<Rightarrow>
                if requestId requestData = [] then
                  (let s2 = broadcastRequestsUpdate
                              (s1\<lparr>requestsStore := update_row requestIndex
                                   (\<lambda>r. r\<lparr>status := finished,
                                           rawResponse := Some (msg_process_failed @ msg_request_invalid)\<rparr>)
                                   (requestsStore s1)\<rparr>)
                   in (s2\<lparr>pendingActions := pendingActions s2 - {id' requestData}\<rparr>, None))
                else
                  (emit (ContinueRequest (tabId requestData) (requestId requestData)
                           (Some (case hdrs of Some hs \<Rightarrow> hs
                                  | None \<Rightarrow> parsed_headers (parseRawRequest rawText)))
                           None) s1,
                   Some \<lparr> rp_requestIndex = requestIndex, rp_id = id' requestData \<rparr>)))"

text \<open>
  After the await the handler writes through the index it found before it. When the
  ledger no longer has that index the write throws in the \<open>try\<close> and again in each
  \<open>catch\<close>, and only the \<open>finally\<close> block takes effect.
\<close>

definition resume_request_complete :: "resume_pending \<Rightarrow> string option \<Rightarrow> state \<Rightarrow> state" where
  "resume_request_complete k outcome s =
     (let requestIndex = rp_requestIndex k;
          s1 = (if requestIndex < length (requestsStore s) then
                  (case outcome of
                     None \<Rightarrow>
                       broadcastRequestsUpdate
                         (s\<lparr>requestsStore := update_row requestIndex (\<lambda>r. r\<lparr>status := finished\<rparr>)
                              (requestsStore s)\<rparr>)
                   | Some errorStr \<Rightarrow>
                       broadcastRequestsUpdate
                         (s\<lparr>requestsStore := update_row requestIndex
                              (\<lambda>r. r\<lparr>status := finished,
                                      rawResponse := Some
                                        (if js_includes errorStr ''Invalid InterceptionId''
                                            \<or> js_includes errorStr ''-32602''
                                         then msg_auto_completed
                                         else msg_resume_failed @ errorStr)\<rparr>)
                              (requestsStore s)\<rparr>))
                else s)
      in s1\<lparr>pendingActions := pendingActions s1 - {rp_id k}\<rparr>)"

text \<open>
  \<open>headersArrayToObject\<close>: each name and its lower-case form become properties of the
  result, a later header replacing an earlier one. The object is the map from its
  property names to their values. (\<open>to_lower\<close> is \<open>toLowerCase\<close> on the ASCII letters.)
\<close>

definition to_lower :: "char \<Rightarrow> char" where
  "to_lower c = (let n = (of_char c :: nat) in if 65 \<le> n \<and> n \<le> 90 then char_of (n + 32) else c)"

definition headersArrayToObject :: "header list \<Rightarrow> (string \<rightharpoonup> string)" where
  "headersArrayToObject hs =
     foldl (\<lambda>result h. result(fst h \<mapsto> snd h, map to_lower (fst h) \<mapsto> snd h)) Map.empty hs"

definition cleanupReplayState :: "replay_closure \<Rightarrow> bool \<Rightarrow> string option \<Rightarrow> state \<Rightarrow> state" where
  "cleanupReplayState c updateUI response s =
     (let s1 = (case replayDataStore s (cl_replayId c) of
                  None \<Rightarrow> s
                | Some data \<Rightarrow>
                    (let s' = s\<lparr> timeouts := (timeouts s)(timeoutId data := None),
                                 replayDataStore := (replayDataStore s)(cl_replayId c := None) \<rparr>
                     in if updateUI then
                          (case findIndex (\<lambda>r. id' r = cl_replayRequestId c) (requestsStore s') of
                             None \<Rightarrow> s'
                           | Some requestIndex \<Rightarrow>
                               broadcastRequestsUpdate
                                 (s'\<lparr>requestsStore := update_row requestIndex
                                      (\<lambda>r. r\<lparr>rawResponse := Some (or_else response msg_replay_default)\<rparr>)
                                      (requestsStore s')\<rparr>))
                        else s'))
      in s1\<lparr>pendingActions := pendingActions s1 - {cl_requestDataId c}\<rparr>)"

text \<open>
  What a \<open>replay-request\<close> reads from the host: the two clock readings, the rendering of
  \<open>Math.random()\<close> and the identifier \<open>setTimeout\<close> returns.
\<close>

record replay_env =
  now_token :: nat
  random :: string
  now_row :: nat
  newTimeoutId :: nat

definition replay_request ::
  "replay_env \<Rightarrow> transaction \<Rightarrow> string \<Rightarrow> header list option \<Rightarrow> state \<Rightarrow> state" where
  "replay_request e requestData rawText hdrs s =
     (if id' requestData \<in> pendingActions s then s
      else
        (let s1 = s\<lparr>pendingActions := insert (id' requestData) (pendingActions s)\<rparr>;
             token = show_nat (now_token e) @ ''-'' @ random e;
             p = parseRawRequest rawText;
             requestHeaders = (case hdrs of Some hs \<Rightarrow> hs | None \<Rightarrow> []);
             replayRequestId = ''replay-'' @ show_nat (now_row e);
             replayRequest =
               \<lparr> id' = replayRequestId, tabId = tabId requestData,
                 requestId = ''replay-'' @ requestId requestData,
                 request = Replayed (parsed_url p) (parsed_method p)
                             (headersArrayToObject requestHeaders),
                 rawRequest = rawText, status = finished, isRedirect = False,
                 requestHeaders = requestHeaders,
                 rawResponse = None, responseHeaders = None \<rparr>;
             s2 = s1\<lparr>requestsStore := requestsStore s1 @ [replayRequest]\<rparr>;
             s3 = s2\<lparr>timeouts := (timeouts s2)(newTimeoutId e \<mapsto>
                        \<lparr> cl_replayId = token, cl_replayRequestId = replayRequestId,
                          cl_requestDataId = id' requestData \<rparr>)\<rparr>;
             s4 = s3\<lparr>replayDataStore := (replayDataStore s3)(token \<mapsto>
                        \<lparr> originalId = id' requestData, replayId = replayRequestId,
                          rd_headers = requestHeaders, rd_postData = parsed_postData p,
                          timeoutId = newTimeoutId e \<rparr>)\<rparr>
         in emit (ExecuteScript (tabId requestData) (parsed_url p) (parsed_method p) token
                    (parsed_postData p) requestHeaders)
              (broadcastRequestsUpdate s4)))"

text \<open>The deadline of a replay: the callback armed by \<open>setTimeout\<close>, once.\<close>

definition timeoutFired :: "nat \<Rightarrow> state \<Rightarrow> state" where
  "timeoutFired t s =
     (case timeouts s t of
        None \<Rightarrow> s
      | Some c \<Rightarrow> cleanupReplayState c True (Some msg_replay_timeout)
                    (s\<lparr>timeouts := (timeouts s)(t := None)\<rparr>))"

text \<open>Neither the original tab nor the active tab accepted the injected script.\<close>

definition injectionFailed :: "replay_closure \<Rightarrow> state \<Rightarrow> state" where
  "injectionFailed c s = cleanupReplayState c True (Some msg_inject_failed) s"

text \<open>The common shape of \<open>replay-fetch-success\<close> and \<open>replay-fetch-failed\<close>.\<close>

definition replay_fetch_done :: "string option \<Rightarrow> string option \<Rightarrow> state \<Rightarrow> state" where
  "replay_fetch_done token text s =
     (case token of
        None \<Rightarrow> s
      | Some t \<Rightarrow>
          if t = [] then s
          else case replayDataStore s t of
            None \<Rightarrow> s
          | Some data \<Rightarrow>
              (let s1 = (case findIndex (\<lambda>r. id' r = replayId data) (requestsStore s) of
                           None \<Rightarrow> s
                         | Some requestIndex \<Rightarrow>
                             broadcastRequestsUpdate
                               (s\<lparr>requestsStore := update_row requestIndex
                                    (\<lambda>r. r\<lparr>rawResponse := text\<rparr>) (requestsStore s)\<rparr>))
               in s1\<lparr> timeouts := (timeouts s1)(timeoutId data := None),
                      replayDataStore := (replayDataStore s1)(t := None),
                      pendingActions := pendingActions s1 - {originalId data} \<rparr>))"

definition replay_fetch_success :: "string option \<Rightarrow> string option \<Rightarrow> state \<Rightarrow> state" where
  "replay_fetch_success token response s = replay_fetch_done token response s"

definition replay_fetch_failed :: "string option \<Rightarrow> string option \<Rightarrow> state \<Rightarrow> state" where
  "replay_fetch_failed token error s =
     replay_fetch_done token (Some (msg_replay_failed @ or_else error msg_unknown_error)) s"

definition clear_requests :: "state \<Rightarrow> state" where
  "clear_requests s = broadcastRequestsUpdate (s\<lparr>requestsStore := []\<rparr>)"

section \<open>Observing one step\<close>

text \<open>The calls a step has added to the trace.\<close>

definition new_effects :: "state \<Rightarrow> state \<Rightarrow> effect list" where
  "new_effects s s' = drop (length (effects s)) (effects s')"

section \<open>Example hosts, events and states\<close>

text \<open>
  A host whose proxy is disabled and whose calls succeed, a captured exchange \<open>N1\<close> of tab 7,
  a replay of it with the token \<open>5-0.25\<close> and the replay row \<open>replay-5\<close>, and the pause
  events of that replay. The states are reached from the empty one by the handlers.
\<close>

definition world_off :: proxy_world where
  "world_off = \<lparr> settings_enabled = False, settings_bypassList = [''localhost'', ''127.0.0.1''],
                 state_isOurProxyActive = False, hostname = (\<lambda>u. None), setChromeProxy_ok = True \<rparr>"

definition host_ok :: host where
  "host_ok = \<lparr> continueRequest = None,
               applyProxy = (\<lambda>rid rq tab. Inr (applyProxyToRequest world_off rid rq tab)),
               getResponseBody = Inr (''hello'', False),
               decodeBody = (\<lambda>rhs body base64Encoded. Inr body),
               processContent = (\<lambda>content sc u rid. content),
               btoa_utf8 = (\<lambda>b. b) \<rparr>"

definition req_A :: request where
  "req_A = \<lparr> url = ''https://a.test/x'', method' = ''GET'',
             headers = [(''Accept'', ''*/*'')], postData = None \<rparr>"

definition ev_request_A :: pause_event where
  "ev_request_A = \<lparr> ev_method = ''Fetch.requestPaused'', ev_tabId = Some 7,
      ev_requestId = Some ''R1'', ev_request = req_A, ev_responseStatusCode = None,
      ev_responseHeaders = None, ev_networkId = Some ''N1'', ev_redirectResponse = False \<rparr>"

definition state_init :: state where
  "state_init = \<lparr> mode = intercept, requestsStore = [], pendingActions = {},
      replayDataStore = Map.empty, replayIdToOriginalIdMap = Map.empty,
      apiWhitelist = [''https://ai.test''], timeouts = Map.empty, effects = [] \<rparr>"

definition row_A :: transaction where
  "row_A = \<lparr> id' = ''N1'', tabId = 7, requestId = ''R1'', request = Captured req_A,
      rawRequest = ''GET https://a.test/x HTTP/1.1'' @ CRLF @ ''Accept: */*'' @ CRLF,
      status = paused, isRedirect = False, requestHeaders = [(''Accept'', ''*/*'')],
      rawResponse = None, responseHeaders = None \<rparr>"

definition state_A :: state where
  "state_A = onEvent host_ok ev_request_A state_init"

definition host_body_error :: host where
  "host_body_error = host_ok\<lparr>getResponseBody := Inl ''No resource with given identifier found''\<rparr>"

definition ev_response_A :: pause_event where
  "ev_response_A = ev_request_A\<lparr> ev_responseStatusCode := Some 200,
      ev_responseHeaders := Some [(''Content-Type'', ''text/plain'')] \<rparr>"

definition replay_env0 :: replay_env where
  "replay_env0 = \<lparr> now_token = 5, random = ''0.25'', now_row = 5, newTimeoutId = 1 \<rparr>"

definition row_replay :: transaction where
  "row_replay = \<lparr> id' = ''replay-5'', tabId = 7, requestId = ''replay-R1'',
      request = Replayed (Some ''https://a.test/x'') (Some ''GET'')
                  (headersArrayToObject [(''Accept'', ''*/*'')]),
      rawRequest = rawRequest row_A, status = finished, isRedirect = False,
      requestHeaders = [(''Accept'', ''*/*'')], rawResponse = None, responseHeaders = None \<rparr>"

definition data_replay :: replay_data where
  "data_replay = \<lparr> originalId = ''N1'', replayId = ''replay-5'',
      rd_headers = [(''Accept'', ''*/*'')], rd_postData = None, timeoutId = 1 \<rparr>"

definition closure_replay :: replay_closure where
  "closure_replay = \<lparr> cl_replayId = ''5-0.25'', cl_replayRequestId = ''replay-5'',
      cl_requestDataId = ''N1'' \<rparr>"

definition state_replay :: state where
  "state_replay = replay_request replay_env0 row_A (rawRequest row_A) (Some [(''Accept'', ''*/*'')]) state_A"


definition ev_repause_A :: pause_event where
  "ev_repause_A = ev_request_A\<lparr>ev_requestId := Some ''R2''\<rparr>"

definition ev_replay_request :: pause_event where
  "ev_replay_request = \<lparr> ev_method = ''Fetch.requestPaused'', ev_tabId = Some 7,
      ev_requestId = Some ''R9'',
      ev_request = \<lparr> url = ''https://a.test/x'', method' = ''GET'',
          headers = [(''X-Replay-Id'', ''5-0.25''), (''Pragma'', ''no-cache''), (''Accept'', ''*/*'')],
          postData = None \<rparr>,
      ev_responseStatusCode = None, ev_responseHeaders = None, ev_networkId = Some ''N9'',
      ev_redirectResponse = False \<rparr>"

definition ev_replay_response :: pause_event where
  "ev_replay_response = ev_replay_request\<lparr> ev_responseStatusCode := Some 200,
      ev_responseHeaders := Some [(''Content-Type'', ''text/plain'')] \<rparr>"

definition ev_redirect_A :: pause_event where
  "ev_redirect_A = ev_request_A\<lparr>ev_requestId := Some ''R2'', ev_redirectResponse := True\<rparr>"

section \<open>Splitting and joining text\<close>

lemma js_split_nonempty: "sep \<noteq> [] \<Longrightarrow> js_split sep s \<noteq> []"
  by (induction sep s rule: js_split.induct) (auto split: list.splits)

lemma js_split_char_cons:
  "c \<notin> set a \<Longrightarrow> js_split [c] (a @ c # b) = a # js_split [c] b"
  by (induction a) (auto split: list.splits)

lemma js_split_char_single: "c \<notin> set a \<Longrightarrow> js_split [c] a = [a]"
  by (induction a) (auto split: list.splits)

lemma js_split_char_join:
  "js_split [c] b = l # ls \<Longrightarrow> b = l @ concat (map (\<lambda>x. c # x) ls)"
proof (induction b arbitrary: l ls)
  case Nil
  then show ?case by simp
next
  case (Cons x xs)
  show ?case
  proof (cases "x = c")
    case True
    with Cons.prems have l: "l = []" and ls: "ls = js_split [c] xs" by auto
    from js_split_nonempty[of "[c]" xs] obtain y ys where y: "js_split [c] xs = y # ys"
      by (cases "js_split [c] xs") auto
    from Cons.IH[OF y] show ?thesis using True l ls y by simp
  next
    case False
    from js_split_nonempty[of "[c]" xs] obtain y ys where y: "js_split [c] xs = y # ys"
      by (cases "js_split [c] xs") auto
    with Cons.prems False have "l = x # y" "ls = ys" by auto
    with Cons.IH[OF y] show ?thesis by simp
  qed
qed

lemma js_split_colon_space_none:
  "\<not> has_colon_space v \<Longrightarrow> js_split '': '' v = [v]"
proof (induction v rule: has_colon_space.induct)
  case (1 a b cs)
  then show ?case by (auto split: list.splits)
qed auto

lemma js_split_colon_space_header:
  "\<not> has_colon_space n \<Longrightarrow> \<not> has_colon_space v \<Longrightarrow> js_split '': '' (n @ '': '' @ v) = [n, v]"
  by (induction n rule: has_colon_space.induct)
     (auto simp: js_split_colon_space_none split: list.splits)

lemma filter_absent: "c \<notin> set s \<Longrightarrow> filter (\<lambda>x. x \<noteq> c) s = s"
  by (induction s) auto

lemma parse_lines_body:
  "acc \<noteq> [] \<Longrightarrow> parse_lines False hs (Some acc) ls = (hs, Some (acc @ concat (map (\<lambda>x. LF # x) ls)))"
  by (induction ls arbitrary: acc) auto

lemma parse_lines_body_start:
  assumes "take 1 b \<noteq> [LF]"
  shows "parse_lines False hs None (js_split [LF] b) = (hs, Some b)"
proof (cases "b = []")
  case True
  then show ?thesis by simp
next
  case False
  obtain l ls where sp: "js_split [LF] b = l # ls"
    using js_split_nonempty[of "[LF]" b] by (cases "js_split [LF] b") auto
  have b: "b = l @ concat (map (\<lambda>x. LF # x) ls)" by (rule js_split_char_join[OF sp])
  have "l \<noteq> []"
  proof
    assume "l = []"
    with b assms False show False by (cases ls) auto
  qed
  then show ?thesis using sp b by (simp add: parse_lines_body)
qed

lemma parse_lines_headers:
  assumes "\<forall>h \<in> set hs. \<not> has_colon_space (fst h) \<and> \<not> has_colon_space (snd h)"
  shows "parse_lines True acc None (map (\<lambda>h. fst h @ '': '' @ snd h) hs @ rest)
         = parse_lines True (acc @ hs) None rest"
  using assms
proof (induction hs arbitrary: acc)
  case Nil
  then show ?case by simp
next
  case (Cons h hs)
  have sp: "js_split '': '' (fst h @ '': '' @ snd h) = [fst h, snd h]"
    using Cons.prems js_split_colon_space_header[of "fst h" "snd h"] by simp
  have ne: "fst h @ '': '' @ snd h \<noteq> []" by simp
  show ?case using Cons.IH[of "acc @ [h]"] Cons.prems sp
    by (simp del: js_split.simps)
qed

lemma split_header_block:
  assumes "\<forall>h \<in> set hs. LF \<notin> set (fst h) \<and> LF \<notin> set (snd h)"
  shows "js_split [LF] (concat (map (\<lambda>h. fst h @ '': '' @ snd h @ [LF]) hs) @ t)
         = map (\<lambda>h. fst h @ '': '' @ snd h) hs @ js_split [LF] t"
  using assms
proof (induction hs)
  case Nil
  then show ?case by simp
next
  case (Cons h hs)
  have "LF \<notin> set (fst h @ '': '' @ snd h)" using Cons.prems by (simp add: LF_def)
  from js_split_char_cons[OF this, of "concat (map (\<lambda>h. fst h @ '': '' @ snd h @ [LF]) hs) @ t"]
  show ?case using Cons by simp
qed

lemma filter_CR_headers:
  assumes "\<forall>h \<in> set hs. CR \<notin> set (fst h) \<and> CR \<notin> set (snd h)"
  shows "filter (\<lambda>c. c \<noteq> CR) (concat (map header_line hs))
         = concat (map (\<lambda>h. fst h @ '': '' @ snd h @ [LF]) hs)"
  using assms
  by (induction hs) (auto simp: header_line_def CRLF_def CR_def LF_def filter_absent)

lemma split_first_line:
  assumes "CHR '' '' \<notin> set m" "CHR '' '' \<notin> set u"
  shows "js_split '' '' (m @ '' '' @ u @ '' HTTP/1.1'') = [m, u, ''HTTP/1.1'']"
proof -
  have "js_split '' '' (m @ CHR '' '' # (u @ CHR '' '' # ''HTTP/1.1'')) = m # js_split '' '' (u @ CHR '' '' # ''HTTP/1.1'')"
    by (rule js_split_char_cons[OF assms(1)])
  also have "js_split '' '' (u @ CHR '' '' # ''HTTP/1.1'') = u # js_split '' '' ''HTTP/1.1''"
    by (rule js_split_char_cons[OF assms(2)])
  also have "js_split '' '' ''HTTP/1.1'' = [''HTTP/1.1'']" by simp
  finally show ?thesis by simp
qed

section \<open>Round trip of the raw request text\<close>

text \<open>
  C7, as amended. Parsing the raw request text the router assembled gives back the method,
  the URL, the processed header list and the processed body, provided that the method and
  the URL contain no space, carriage return or line feed, that no header name or value
  contains a carriage return, a line feed or a colon followed by a space, and that the
  body, when one was captured, is processed to a text without carriage return that does
  not start with a line feed. A captured body that is falsy (absent or empty) is parsed
  back as absent.
\<close>

theorem parse_assemble_roundtrip:
  assumes m: "plain_token m" and u: "plain_token u"
    and hs: "\<forall>h \<in> set hs. plain_header h"
    and b: "plain_body processed" and tb: "truthy captured \<longrightarrow> processed \<noteq> None"
  shows "parseRawRequest (assemble_rawRequest m u hs captured processed)
         = \<lparr> parsed_method = Some m, parsed_url = Some u, parsed_headers = hs,
             parsed_postData = (if truthy captured then processed else None) \<rparr>"
proof -
  define tail where "tail = (if truthy captured then LF # the processed else [])"
  define first where "first = m @ '' '' @ u @ '' HTTP/1.1''"
  have hs1: "\<forall>h \<in> set hs. CR \<notin> set (fst h) \<and> CR \<notin> set (snd h)"
    and hs2: "\<forall>h \<in> set hs. LF \<notin> set (fst h) \<and> LF \<notin> set (snd h)"
    and hs3: "\<forall>h \<in> set hs. \<not> has_colon_space (fst h) \<and> \<not> has_colon_space (snd h)"
    using hs by (auto simp: plain_header_def)
  have fl: "filter (\<lambda>c. c \<noteq> CR) first = first" "LF \<notin> set first"
    using m u by (auto simp: first_def plain_token_def CR_def LF_def filter_absent)
  have ft: "filter (\<lambda>c. c \<noteq> CR) (if truthy captured then CRLF @ (case processed of None \<Rightarrow> ''undefined'' | Some b \<Rightarrow> b) else []) = tail"
    using b tb by (auto simp: tail_def plain_body_def CRLF_def CR_def LF_def filter_absent split: option.splits)
  have stripped: "filter (\<lambda>c. c \<noteq> CR) (assemble_rawRequest m u hs captured processed)
      = first @ LF # (concat (map (\<lambda>h. fst h @ '': '' @ snd h @ [LF]) hs) @ tail)"
    unfolding assemble_rawRequest_def
    using fl(1) ft filter_CR_headers[OF hs1]
    by (simp add: first_def CRLF_def CR_def LF_def)
  have lines: "js_split [LF] (filter (\<lambda>c. c \<noteq> CR) (assemble_rawRequest m u hs captured processed))
      = first # (map (\<lambda>h. fst h @ '': '' @ snd h) hs @ js_split [LF] tail)"
    unfolding stripped using js_split_char_cons[OF fl(2)] split_header_block[OF hs2] by simp
  have parts: "js_split '' '' first = [m, u, ''HTTP/1.1'']"
    unfolding first_def using m u by (intro split_first_line) (auto simp: plain_token_def)
  have body: "parse_lines True hs None (js_split [LF] tail)
      = (hs, if truthy captured then processed else None)"
  proof (cases "truthy captured")
    case True
    then obtain t where t: "processed = Some t" using tb by auto
    then have "take 1 t \<noteq> [LF]" using b by (auto simp: plain_body_def)
    then have "parse_lines False hs None (js_split [LF] t) = (hs, Some t)"
      by (rule parse_lines_body_start)
    moreover have "js_split [LF] (LF # t) = [] # js_split [LF] t" by simp
    ultimately show ?thesis using True t by (simp add: tail_def del: js_split.simps)
  next
    case False
    then show ?thesis by (simp add: tail_def)
  qed
  have "parse_lines True [] None (map (\<lambda>h. fst h @ '': '' @ snd h) hs @ js_split [LF] tail)
      = (hs, if truthy captured then processed else None)"
    using parse_lines_headers[OF hs3, of "[]" "js_split [LF] tail"] body by simp
  then show ?thesis
    unfolding parseRawRequest_def lines by (simp add: parts Let_def del: js_split.simps)
qed


theorem parse_assemble_roundtrip_witness:
  "parseRawRequest (assemble_rawRequest ''POST'' ''https://a.test/x?y=1''
       [(''Host'', ''a.test''), (''Accept'', ''*/*'')] (Some ''k=v'') (Some ''k=w''))
   = \<lparr> parsed_method = Some ''POST'', parsed_url = Some ''https://a.test/x?y=1'',
       parsed_headers = [(''Host'', ''a.test''), (''Accept'', ''*/*'')],
       parsed_postData = Some ''k=w'' \<rparr>"
  using parse_assemble_roundtrip [of "''POST''" "''https://a.test/x?y=1''"
      "[(''Host'', ''a.test''), (''Accept'', ''*/*'')]" "Some ''k=w''" "Some ''k=v''"]
  by (simp add: plain_token_def plain_header_def plain_body_def truthy_def CR_def LF_def)

text \<open>
  The claim as stated fails on a header value that contains a colon and a space, and on a
  body that contains a carriage return: the header is dropped and the body comes back
  without the carriage return.
\<close>

theorem parse_assemble_counterexample:
  "parsed_headers (parseRawRequest (assemble_rawRequest ''POST'' ''/u''
       [(''X-Note'', ''a: b'')] (Some [CHR ''a'', CR, LF, CHR ''b'']) (Some [CHR ''a'', CR, LF, CHR ''b''])))
     \<noteq> [(''X-Note'', ''a: b'')]
   \<and> parsed_postData (parseRawRequest (assemble_rawRequest ''POST'' ''/u''
       [(''X-Note'', ''a: b'')] (Some [CHR ''a'', CR, LF, CHR ''b'']) (Some [CHR ''a'', CR, LF, CHR ''b''])))
     \<noteq> Some [CHR ''a'', CR, LF, CHR ''b'']"
  by (simp add: parseRawRequest_def assemble_rawRequest_def header_line_def truthy_def
        CRLF_def CR_def LF_def)

definition pending_A :: response_pending where
  "pending_A = \<lparr> rs_tab = 7, rs_requestId = ''R1'', rs_uniqueId = ''N1'',
      rs_existingRequestIndex = 0, rs_event = ev_response_A,
      rs_responseHeaders = [(''Content-Type'', ''text/plain'')] \<rparr>"

definition pending_replay :: response_pending where
  "pending_replay = \<lparr> rs_tab = 7, rs_requestId = ''R9'', rs_uniqueId = ''N1'',
      rs_existingRequestIndex = 0, rs_event = ev_replay_response,
      rs_responseHeaders = [(''Content-Type'', ''text/plain'')] \<rparr>"

section \<open>Basic facts about the router\<close>

lemmas router_defs = onEvent_def requestPaused_def routePause_def dispatchStage_def newRequest_def
  newRequestRow_def completeResponse_def responseText_def continueReplay_def liveReplay_def
  isWhitelisted_def uniqueId_of_def emit_def broadcastRequestsUpdate_def update_row_def or_else_def
  truthy_def starts_with_def processUrl_def processRequestHeaders_def processRequestBody_def
  processResponseHeaders_def processResponseBody_def assemble_rawRequest_def header_line_def
  applyProxyToRequest_def applyProxyToRequest_try_def Let_def

lemma findIndex_Some:
  "findIndex P xs = Some i \<Longrightarrow> i < length xs \<and> P (xs ! i)"
  by (induction xs arbitrary: i) (auto split: if_splits)

lemma findIndex_append_new:
  "findIndex P xs = None \<Longrightarrow> P x \<Longrightarrow> findIndex P (xs @ [x]) = Some (length xs)"
  by (induction xs) (auto split: if_splits)

lemma requestPaused_route:
  assumes "ev_method ev = ''Fetch.requestPaused''" "ev_tabId ev = Some tab" "tab \<noteq> 0"
    "ev_requestId ev = Some rid" "rid \<noteq> []"
    "\<not> isWhitelisted s (ev_request ev)" "liveReplay s (ev_request ev) = None"
  shows "requestPaused h ev s = routePause h tab rid ev s"
  using assms by (simp add: requestPaused_def)

lemma onEvent_route:
  assumes "ev_method ev = ''Fetch.requestPaused''" "ev_tabId ev = Some tab" "tab \<noteq> 0"
    "ev_requestId ev = Some rid" "rid \<noteq> []"
    "\<not> isWhitelisted s (ev_request ev)" "liveReplay s (ev_request ev) = None"
  shows "onEvent h ev s = fst (routePause h tab rid ev s)"
  using assms by (simp add: onEvent_def requestPaused_def)

lemma no_token_not_live:
  "map_of (headers rq) ''X-Replay-Id'' = None \<Longrightarrow> liveReplay s rq = None"
  by (simp add: liveReplay_def)

lemma processRequestHeaders_single:
  "hd (processRequestHeaders pc [kv] u rid) = (fst kv, pc (snd kv) REQUEST_HEADERS u rid)"
  by (simp add: processRequestHeaders_def)

lemma applyProxyToRequest_never_handles: "applyProxyToRequest w rid rq tab = False"
  by (simp add: applyProxyToRequest_def applyProxyToRequest_try_def split: sum.splits if_splits)

lemma routePause_new_request:
  assumes "ev_responseHeaders ev = None"
    and "findIndex (\<lambda>r. id' r = uniqueId_of s tab rid ev) (requestsStore s) = None"
    and "applyProxy h rid (ev_request ev) tab \<noteq> Inr True"
  shows "routePause h tab rid ev s =
           (newRequest h tab rid (uniqueId_of s tab rid ev) ev
              (s\<lparr>effects := effects s @ (if ev_redirectResponse ev then [] else [ApplyProxyToRequest rid])\<rparr>),
            None)"
  using assms
  by (auto simp: routePause_def dispatchStage_def emit_def Let_def split: sum.splits bool.splits)

lemma newRequest_ids:
  assumes "findIndex (\<lambda>r. id' r = uid) (requestsStore s) = None"
  shows "map id' (requestsStore (newRequest h tab rid uid ev s)) = map id' (requestsStore s) @ [uid]"
proof -
  have idr: "id' (newRequestRow h m tab rid uid ev) = uid" for m
    by (simp add: newRequestRow_def Let_def)
  have fi: "findIndex (\<lambda>r. id' r = uid) (requestsStore s @ [newRequestRow h m tab rid uid ev])
      = Some (length (requestsStore s))" for m
    using assms idr by (intro findIndex_append_new) auto
  show ?thesis
    by (cases "continueRequest h")
       (simp_all add: newRequest_def emit_def broadcastRequestsUpdate_def update_row_def Let_def
          fi idr)
qed





text \<open>The example states, evaluated.\<close>

lemma state_A_eq:
  "state_A = state_init\<lparr> requestsStore := [row_A],
       effects := [ApplyProxyToRequest ''R1'', Broadcast [row_A]] \<rparr>"
  by (simp add: state_A_def router_defs host_ok_def ev_request_A_def state_init_def req_A_def row_A_def world_off_def)

lemma parse_row_A:
  "parseRawRequest (rawRequest row_A) = \<lparr> parsed_method = Some ''GET'',
     parsed_url = Some ''https://a.test/x'', parsed_headers = [(''Accept'', ''*/*'')],
     parsed_postData = None \<rparr>"
  by (simp add: row_A_def parseRawRequest_def CRLF_def CR_def LF_def)

lemma state_replay_eq:
  "state_replay = state_A\<lparr> requestsStore := [row_A, row_replay],
       pendingActions := {''N1''},
       replayDataStore := [''5-0.25'' \<mapsto> data_replay],
       timeouts := [1 \<mapsto> closure_replay],
       effects := effects state_A @ [Broadcast [row_A, row_replay],
          ExecuteScript 7 (Some ''https://a.test/x'') (Some ''GET'') ''5-0.25'' None
            [(''Accept'', ''*/*'')]] \<rparr>"
  unfolding state_replay_def replay_request_def parse_row_A
  by (simp add: state_A_eq state_init_def replay_env0_def show_nat.simps row_replay_def
        data_replay_def closure_replay_def emit_def broadcastRequestsUpdate_def Let_def)
     (simp add: row_A_def)

lemma ev_replay_live:
  "liveReplay state_replay (ev_request ev_replay_request) = Some (''5-0.25'', data_replay)"
  by (simp add: liveReplay_def ev_replay_request_def state_replay_eq)

section \<open>New exchanges\<close>

text \<open>
  C3. A pause event of the request stage (no response headers) of an exchange that is not
  a replay (no \<open>X-Replay-Id\<close> header, request id not bound to a replay), that comes from a
  tab, has a request id, is not whitelisted and whose identity matches no row creates a
  Transaction. Its id is the network id when there is one and the tab id, a dash and the
  request id otherwise. Its raw request text is the method, a space, the processed URL,
  \<open>HTTP/1.1\<close> and a line end, one line \<open>name: processed value\<close> per header, and, when a
  body was captured, an empty line and the processed body. Its header list is the
  processed one; its request snapshot is the request of the event as it came. The row is
  appended to the ledger and the new ledger is broadcast. In \<open>intercept\<close> mode the row is
  \<open>paused\<close> and nothing else happens. In \<open>proxy\<close> mode the row is \<open>finished\<close> and
  \<open>Fetch.continueRequest\<close> is sent right after the broadcast; when that command fails the
  row stays \<open>finished\<close>, receives the error text and is broadcast again. The proxy
  reconciler is the one of the source, which never reports a request as handled.
\<close>

theorem new_exchange_captured:
  assumes "ev_method ev = ''Fetch.requestPaused''" "ev_tabId ev = Some tab" "tab \<noteq> 0"
    and "ev_requestId ev = Some rid" "rid \<noteq> []"
    and "\<not> isWhitelisted s (ev_request ev)"
    and "map_of (headers (ev_request ev)) ''X-Replay-Id'' = None"
    and "replayIdToOriginalIdMap s rid = None"
    and "ev_responseHeaders ev = None"
    and "findIndex (\<lambda>r. id' r = uniqueId_of s tab rid ev) (requestsStore s) = None"
    and "applyProxy h = (\<lambda>rid rq tab. Inr (applyProxyToRequest w rid rq tab))"
  shows "let rq = ev_request ev;
             row = (\<lambda>st.
                 \<lparr> id' = (case ev_networkId ev of
                            None \<Rightarrow> show_nat tab @ ''-'' @ rid
                          | Some n \<Rightarrow> if n = [] then show_nat tab @ ''-'' @ rid else n),
                   tabId = tab, requestId = rid, request = Captured rq,
                   rawRequest =
                     method' rq @ '' '' @ processContent h (url rq) REQUEST_URL (url rq) rid
                       @ '' HTTP/1.1'' @ [CHR 0x0D, CHR 0x0A]
                       @ concat (map (\<lambda>kv. fst kv @ '': ''
                                   @ processContent h (snd kv) REQUEST_HEADERS (url rq) rid
                                   @ [CHR 0x0D, CHR 0x0A]) (headers rq))
                       @ (case postData rq of
                            None \<Rightarrow> []
                          | Some b \<Rightarrow> if b = [] then []
                                      else [CHR 0x0D, CHR 0x0A]
                                             @ processContent h b REQUEST_BODY (url rq) rid),
                   status = st, isRedirect = ev_redirectResponse ev,
                   requestHeaders =
                     map (\<lambda>kv. (fst kv, processContent h (snd kv) REQUEST_HEADERS (url rq) rid))
                       (headers rq),
                   rawResponse = None, responseHeaders = None \<rparr>);
             consulted = (if ev_redirectResponse ev then [] else [ApplyProxyToRequest rid]);
             resumed = ContinueRequest tab rid None None
         in (mode s = intercept \<longrightarrow>
               onEvent h ev s = s\<lparr> requestsStore := requestsStore s @ [row paused],
                   effects := effects s @ consulted
                     @ [Broadcast (requestsStore s @ [row paused])] \<rparr>)
          \<and> (mode s = proxy \<longrightarrow>
               (continueRequest h = None \<longrightarrow>
                  onEvent h ev s = s\<lparr> requestsStore := requestsStore s @ [row finished],
                      effects := effects s @ consulted
                        @ [Broadcast (requestsStore s @ [row finished]), resumed] \<rparr>)
             \<and> (\<forall>e. continueRequest h = Some e \<longrightarrow>
                  onEvent h ev s =
                    s\<lparr> requestsStore := requestsStore s
                           @ [(row finished)\<lparr>rawResponse := Some (msg_continue_failed @ e)\<rparr>],
                        effects := effects s @ consulted
                          @ [Broadcast (requestsStore s @ [row finished]), resumed,
                             Broadcast (requestsStore s
                               @ [(row finished)\<lparr>rawResponse := Some (msg_continue_failed @ e)\<rparr>])] \<rparr>))"
proof -
  define rq where "rq = ev_request ev"
  define row where "row = (\<lambda>st.
                 \<lparr> id' = (case ev_networkId ev of
                            None \<Rightarrow> show_nat tab @ ''-'' @ rid
                          | Some n \<Rightarrow> if n = [] then show_nat tab @ ''-'' @ rid else n),
                   tabId = tab, requestId = rid, request = Captured rq,
                   rawRequest =
                     method' rq @ '' '' @ processContent h (url rq) REQUEST_URL (url rq) rid
                       @ '' HTTP/1.1'' @ [CHR 0x0D, CHR 0x0A]
                       @ concat (map (\<lambda>kv. fst kv @ '': ''
                                   @ processContent h (snd kv) REQUEST_HEADERS (url rq) rid
                                   @ [CHR 0x0D, CHR 0x0A]) (headers rq))
                       @ (case postData rq of
                            None \<Rightarrow> []
                          | Some b \<Rightarrow> if b = [] then []
                                      else [CHR 0x0D, CHR 0x0A]
                                             @ processContent h b REQUEST_BODY (url rq) rid),
                   status = st, isRedirect = ev_redirectResponse ev,
                   requestHeaders =
                     map (\<lambda>kv. (fst kv, processContent h (snd kv) REQUEST_HEADERS (url rq) rid))
                       (headers rq),
                   rawResponse = None, responseHeaders = None \<rparr>)"
  define uid where "uid = uniqueId_of s tab rid ev"
  define s0 where "s0 = s\<lparr>effects := effects s @ (if ev_redirectResponse ev then [] else [ApplyProxyToRequest rid])\<rparr>"
  have live: "liveReplay s (ev_request ev) = None"
    using assms(7) by (rule no_token_not_live)
  have np: "applyProxy h rid (ev_request ev) tab \<noteq> Inr True"
    using assms(11) by (simp add: applyProxyToRequest_never_handles)
  have ev: "onEvent h ev s = newRequest h tab rid uid ev s0"
    unfolding onEvent_route[OF assms(1-6) live] uid_def s0_def
    by (simp add: routePause_new_request[OF assms(9,10) np])
  have r: "newRequestRow h m tab rid uid ev = row (if m = proxy then finished else paused)" for m
    using assms(8)
    by (simp add: newRequestRow_def row_def rq_def uid_def uniqueId_of_def or_else_def
          assemble_rawRequest_def header_line_def CRLF_def CR_def LF_def processUrl_def
          processRequestHeaders_def processRequestBody_def truthy_def Let_def comp_def
          split: option.splits)
  have idr: "id' (row st) = uid" for st
    using r[of proxy] r[of intercept] by (cases st) (simp_all add: newRequestRow_def Let_def row_def)
  have fi: "findIndex (\<lambda>r. id' r = uid) (requestsStore s @ [row st]) = Some (length (requestsStore s))" for st
    using assms(10) idr unfolding uid_def by (intro findIndex_append_new) auto
  have i: "mode s = intercept \<Longrightarrow> onEvent h ev s =
      s\<lparr> requestsStore := requestsStore s @ [row paused],
         effects := effects s @ (if ev_redirectResponse ev then [] else [ApplyProxyToRequest rid])
            @ [Broadcast (requestsStore s @ [row paused])] \<rparr>"
    unfolding ev by (simp add: newRequest_def r s0_def emit_def broadcastRequestsUpdate_def Let_def)
  have p1: "mode s = proxy \<Longrightarrow> continueRequest h = None \<Longrightarrow> onEvent h ev s =
      s\<lparr> requestsStore := requestsStore s @ [row finished],
         effects := effects s @ (if ev_redirectResponse ev then [] else [ApplyProxyToRequest rid])
            @ [Broadcast (requestsStore s @ [row finished]), ContinueRequest tab rid None None] \<rparr>"
    unfolding ev by (simp add: newRequest_def r s0_def emit_def broadcastRequestsUpdate_def Let_def)
  have p2: "mode s = proxy \<Longrightarrow> continueRequest h = Some e \<Longrightarrow> onEvent h ev s =
      s\<lparr> requestsStore := requestsStore s
             @ [(row finished)\<lparr>rawResponse := Some (msg_continue_failed @ e)\<rparr>],
         effects := effects s @ (if ev_redirectResponse ev then [] else [ApplyProxyToRequest rid])
            @ [Broadcast (requestsStore s @ [row finished]), ContinueRequest tab rid None None,
               Broadcast (requestsStore s
                 @ [(row finished)\<lparr>rawResponse := Some (msg_continue_failed @ e)\<rparr>])] \<rparr>" for e
  proof -
    assume m: "mode s = proxy" and c: "continueRequest h = Some e"
    have st: "status (row finished) = finished" by (simp add: row_def)
    show ?thesis
      unfolding ev newRequest_def
      using m c fi[of finished] st
      by (simp add: s0_def r emit_def broadcastRequestsUpdate_def update_row_def Let_def)
  qed
  show ?thesis
    unfolding Let_def
    apply (intro conjI impI allI)
      apply (rule i[unfolded row_def rq_def], assumption)
     apply (rule p1[unfolded row_def rq_def], assumption, assumption)
    apply (rule p2[unfolded row_def rq_def], assumption, assumption)
    done
qed

text \<open>The first event of the exchange \<open>N1\<close>, in both modes, with the text of the new row.\<close>

theorem new_exchange_captured_witness:
  "onEvent host_ok ev_request_A state_init
     = state_init\<lparr> requestsStore := [row_A],
          effects := [ApplyProxyToRequest ''R1'', Broadcast [row_A]] \<rparr>
   \<and> onEvent host_ok ev_request_A (state_init\<lparr>mode := proxy\<rparr>)
     = state_init\<lparr> mode := proxy, requestsStore := [row_A\<lparr>status := finished\<rparr>],
          effects := [ApplyProxyToRequest ''R1'', Broadcast [row_A\<lparr>status := finished\<rparr>],
                      ContinueRequest 7 ''R1'' None None] \<rparr>
   \<and> rawRequest row_A = ''GET https://a.test/x HTTP/1.1'' @ [CHR 0x0D, CHR 0x0A]
                           @ ''Accept: */*'' @ [CHR 0x0D, CHR 0x0A]"
proof -
  have a: "ev_method ev_request_A = ''Fetch.requestPaused''" "ev_tabId ev_request_A = Some 7"
      "(7::nat) \<noteq> 0" "ev_requestId ev_request_A = Some ''R1''" "''R1'' \<noteq> []"
      "\<not> isWhitelisted state_init (ev_request ev_request_A)"
      "map_of (headers (ev_request ev_request_A)) ''X-Replay-Id'' = None"
      "replayIdToOriginalIdMap state_init ''R1'' = None"
      "ev_responseHeaders ev_request_A = None"
      "findIndex (\<lambda>r. id' r = uniqueId_of state_init 7 ''R1'' ev_request_A) (requestsStore state_init) = None"
      "applyProxy host_ok = (\<lambda>rid rq tab. Inr (applyProxyToRequest world_off rid rq tab))"
    by (simp_all add: ev_request_A_def state_init_def req_A_def isWhitelisted_def
          starts_with_def host_ok_def)
  have b: "ev_method ev_request_A = ''Fetch.requestPaused''" "ev_tabId ev_request_A = Some 7"
      "(7::nat) \<noteq> 0" "ev_requestId ev_request_A = Some ''R1''" "''R1'' \<noteq> []"
      "\<not> isWhitelisted (state_init\<lparr>mode := proxy\<rparr>) (ev_request ev_request_A)"
      "map_of (headers (ev_request ev_request_A)) ''X-Replay-Id'' = None"
      "replayIdToOriginalIdMap (state_init\<lparr>mode := proxy\<rparr>) ''R1'' = None"
      "ev_responseHeaders ev_request_A = None"
      "findIndex (\<lambda>r. id' r = uniqueId_of (state_init\<lparr>mode := proxy\<rparr>) 7 ''R1'' ev_request_A)
         (requestsStore (state_init\<lparr>mode := proxy\<rparr>)) = None"
      "applyProxy host_ok = (\<lambda>rid rq tab. Inr (applyProxyToRequest world_off rid rq tab))"
    by (simp_all add: ev_request_A_def state_init_def req_A_def isWhitelisted_def
          starts_with_def host_ok_def)
  have mi: "mode state_init = intercept" and mp: "mode (state_init\<lparr>mode := proxy\<rparr>) = proxy"
    and ok: "continueRequest host_ok = None"
    by (simp_all add: state_init_def host_ok_def)
  note t1 = new_exchange_captured [OF a, unfolded Let_def, THEN conjunct1, rule_format, OF mi]
  note t2 = new_exchange_captured [OF b, unfolded Let_def, THEN conjunct2, rule_format, OF mp,
      THEN conjunct1, rule_format, OF ok]
  have g1: "onEvent host_ok ev_request_A state_init
     = state_init\<lparr> requestsStore := [row_A],
          effects := [ApplyProxyToRequest ''R1'', Broadcast [row_A]] \<rparr>"
    unfolding t1
    by (simp add: state_init_def ev_request_A_def req_A_def host_ok_def row_A_def CRLF_def CR_def LF_def)
  have g2: "onEvent host_ok ev_request_A (state_init\<lparr>mode := proxy\<rparr>)
     = state_init\<lparr> mode := proxy, requestsStore := [row_A\<lparr>status := finished\<rparr>],
          effects := [ApplyProxyToRequest ''R1'', Broadcast [row_A\<lparr>status := finished\<rparr>],
                      ContinueRequest 7 ''R1'' None None] \<rparr>"
    unfolding t2
    by (simp add: state_init_def ev_request_A_def req_A_def host_ok_def row_A_def CRLF_def CR_def LF_def)
  have g3: "rawRequest row_A = ''GET https://a.test/x HTTP/1.1'' @ [CHR 0x0D, CHR 0x0A]
                           @ ''Accept: */*'' @ [CHR 0x0D, CHR 0x0A]"
    by (simp add: row_A_def CRLF_def CR_def LF_def)
  show ?thesis using g1 g2 g3 by blast
qed

text \<open>
  C5, as amended. A pause event of the request stage (no response headers) that comes
  from a tab, has a request id, is not whitelisted, carries no correlation token and whose
  identity matches no row is treated as a new exchange: a row with that identity is
  appended to the ledger.
\<close>

theorem unmatched_pause_event:
  assumes "ev_method ev = ''Fetch.requestPaused''" "ev_tabId ev = Some tab" "tab \<noteq> 0"
    and "ev_requestId ev = Some rid" "rid \<noteq> []"
    and "\<not> isWhitelisted s (ev_request ev)"
    and "map_of (headers (ev_request ev)) ''X-Replay-Id'' = None"
    and "ev_responseHeaders ev = None"
    and "findIndex (\<lambda>r. id' r = uniqueId_of s tab rid ev) (requestsStore s) = None"
    and "applyProxy h = (\<lambda>rid rq tab. Inr (applyProxyToRequest w rid rq tab))"
  shows "map id' (requestsStore (onEvent h ev s))
           = map id' (requestsStore s) @ [uniqueId_of s tab rid ev]"
proof -
  have live: "liveReplay s (ev_request ev) = None"
    using assms(7) by (rule no_token_not_live)
  have np: "applyProxy h rid (ev_request ev) tab \<noteq> Inr True"
    using assms(10) by (simp add: applyProxyToRequest_never_handles)
  show ?thesis
    unfolding onEvent_route[OF assms(1-6) live] routePause_new_request[OF assms(8,9) np]
    using assms(9) by (simp add: newRequest_ids)
qed

theorem unmatched_pause_event_witness:
  "map id' (requestsStore (onEvent host_ok ev_request_A state_init)) = [''N1'']"
proof -
  have a: "ev_method ev_request_A = ''Fetch.requestPaused''" "ev_tabId ev_request_A = Some 7"
      "(7::nat) \<noteq> 0" "ev_requestId ev_request_A = Some ''R1''" "''R1'' \<noteq> []"
      "\<not> isWhitelisted state_init (ev_request ev_request_A)"
      "map_of (headers (ev_request ev_request_A)) ''X-Replay-Id'' = None"
      "ev_responseHeaders ev_request_A = None"
      "findIndex (\<lambda>r. id' r = uniqueId_of state_init 7 ''R1'' ev_request_A) (requestsStore state_init) = None"
      "applyProxy host_ok = (\<lambda>rid rq tab. Inr (applyProxyToRequest world_off rid rq tab))"
    by (simp_all add: ev_request_A_def state_init_def req_A_def isWhitelisted_def
          starts_with_def host_ok_def)
  show ?thesis
    using unmatched_pause_event[OF a]
    by (simp add: ev_request_A_def state_init_def uniqueId_of_def or_else_def)
qed

text \<open>
  The claim as stated fails for the response stage: on the empty ledger, a pause event
  with response headers and no correlation token leaves the whole state as it is, so no
  Transaction is created.
\<close>

theorem unmatched_response_counterexample:
  "onEvent host_ok ev_response_A state_init = state_init \<and> requestsStore state_init = []"
  by (simp add: router_defs ev_response_A_def ev_request_A_def state_init_def req_A_def host_ok_def)

section \<open>Errors of the response stage\<close>

text \<open>
  C4. The exchange \<open>N1\<close> has a row and its response-stage pause event arrives: the
  listener asks for the body and is suspended with the index 0 of the row. When the
  answer is an error and nothing happened in between, the row receives the error text
  and becomes \<open>finished\<close>, the ledger is broadcast and \<open>Fetch.continueRequest\<close> is sent, as
  the claim says. When \<open>clear-requests\<close> ran in between, the error is recorded nowhere
  and the only call the listener still makes is the broadcast of the empty ledger:
  \<open>Fetch.continueRequest\<close> is not sent and the exchange stays paused, where the claim says
  that the exchange is still resumed.
\<close>

theorem response_error_after_clear_not_resumed:
  "requestPaused host_body_error ev_response_A state_A
     = (state_A\<lparr>effects := effects state_A @ [GetResponseBody 7 ''R1'']\<rparr>, Some pending_A)
   \<and> requestsStore (completeResponse host_body_error pending_A
        (onEvent host_body_error ev_response_A state_A))
       = [row_A\<lparr>rawResponse :=
            Some ''Error getting response body: No resource with given identifier found'',
            status := finished\<rparr>]
   \<and> new_effects (onEvent host_body_error ev_response_A state_A)
        (completeResponse host_body_error pending_A
           (onEvent host_body_error ev_response_A state_A))
       = [Broadcast [row_A\<lparr>rawResponse :=
            Some ''Error getting response body: No resource with given identifier found'',
            status := finished\<rparr>],
          ContinueRequest 7 ''R1'' None None]
   \<and> requestsStore (completeResponse host_body_error pending_A
        (clear_requests (onEvent host_body_error ev_response_A state_A))) = []
   \<and> new_effects (onEvent host_body_error ev_response_A state_A)
        (completeResponse host_body_error pending_A
           (clear_requests (onEvent host_body_error ev_response_A state_A)))
       = [Broadcast [], Broadcast []]"
  by (simp add: state_A_eq router_defs new_effects_def clear_requests_def pending_A_def
        ev_response_A_def ev_request_A_def state_init_def req_A_def host_body_error_def
        host_ok_def row_A_def)

section \<open>The proxy check\<close>




section \<open>Resuming twice\<close>

text \<open>
  C6. When a \<open>resume-request\<close> has sent \<open>Fetch.continueRequest\<close> and awaits the answer, the
  id of its transaction is in the pending set and exactly one command has been added to
  the trace; a second \<open>resume-request\<close> for the same id returns with the state unchanged,
  so it sends no command; and when the first invocation completes, whatever the answer,
  the id is no longer pending.
\<close>

theorem resume_twice_one_command:
  assumes "resume_request requestData rawText hdrs s = (s1, Some k)"
    and "id' requestData2 = id' requestData"
  shows "id' requestData \<in> pendingActions s1
     \<and> effects s1 = effects s @
           [ContinueRequest (tabId requestData) (requestId requestData)
              (Some (case hdrs of Some hs \<Rightarrow> hs
                     | None \<Rightarrow> parsed_headers (parseRawRequest rawText))) None]
     \<and> resume_request requestData2 rawText2 hdrs2 s1 = (s1, None)
     \<and> id' requestData \<notin> pendingActions (resume_request_complete k outcome s1)"
  using assms
  by (auto simp: resume_request_def resume_request_complete_def emit_def
        broadcastRequestsUpdate_def Let_def split: if_splits option.splits)

theorem resume_twice_one_command_witness:
  "''N1'' \<in> pendingActions (fst (resume_request row_A [] (Some [(''Accept'', ''*/*'')]) state_A))
     \<and> effects (fst (resume_request row_A [] (Some [(''Accept'', ''*/*'')]) state_A))
         = effects state_A @ [ContinueRequest 7 ''R1'' (Some [(''Accept'', ''*/*'')]) None]
     \<and> resume_request row_A [] None (fst (resume_request row_A [] (Some [(''Accept'', ''*/*'')]) state_A))
         = (fst (resume_request row_A [] (Some [(''Accept'', ''*/*'')]) state_A), None)
     \<and> ''N1'' \<notin> pendingActions (resume_request_complete
           \<lparr>rp_requestIndex = 0, rp_id = ''N1''\<rparr> None
           (fst (resume_request row_A [] (Some [(''Accept'', ''*/*'')]) state_A)))"
proof -
  have first: "resume_request row_A [] (Some [(''Accept'', ''*/*'')]) state_A
      = (fst (resume_request row_A [] (Some [(''Accept'', ''*/*'')]) state_A),
         Some \<lparr>rp_requestIndex = 0, rp_id = ''N1''\<rparr>)"
    by (simp add: resume_request_def state_A_eq state_init_def row_A_def emit_def Let_def)
  show ?thesis
    using resume_twice_one_command [OF first, of row_A "[]" None None]
    by (simp add: row_A_def)
qed

section \<open>Replay correlations\<close>

text \<open>
  C2. The exchange \<open>N1\<close> is paused and is replayed: the correlation \<open>5-0.25\<close> is live and
  its replay row is \<open>replay-5\<close>. The pause event that carries the token is resumed as the
  claim says: the correlation and its deadline are removed, \<open>N1\<close> is pending, the stored
  headers are sent and the ledger is unchanged. The response-stage event of that exchange
  is then written onto the row \<open>N1\<close> of the original transaction, which becomes
  \<open>finished\<close>, and the replay row \<open>replay-5\<close> has no response, where the claim says that the
  response is written onto the replay row and onto no other row.
\<close>

theorem replay_response_written_on_original:
  "replayDataStore state_replay ''5-0.25'' = Some data_replay
   \<and> replayId data_replay = ''replay-5'' \<and> originalId data_replay = ''N1''
   \<and> map (\<lambda>r. (id' r, status r, rawResponse r)) (requestsStore state_replay)
       = [(''N1'', paused, None), (''replay-5'', finished, None)]
   \<and> onEvent host_ok ev_replay_request state_replay
       = state_replay\<lparr> timeouts := Map.empty, replayDataStore := Map.empty,
            replayIdToOriginalIdMap := [''R9'' \<mapsto> ''N1''],
            effects := effects state_replay
              @ [ContinueRequest 7 ''R9'' (Some [(''Accept'', ''*/*'')]) None] \<rparr>
   \<and> snd (requestPaused host_ok ev_replay_response
        (onEvent host_ok ev_replay_request state_replay)) = Some pending_replay
   \<and> map (\<lambda>r. (id' r, status r, rawResponse r))
        (requestsStore (completeResponse host_ok pending_replay
           (onEvent host_ok ev_replay_response
              (onEvent host_ok ev_replay_request state_replay))))
       = [(''N1'', finished,
           Some (''HTTP/1.1 200'' @ [CHR 0x0D, CHR 0x0A] @ ''Content-Type: text/plain''
                   @ [CHR 0x0D, CHR 0x0A] @ [CHR 0x0D, CHR 0x0A] @ ''hello'')),
          (''replay-5'', finished, None)]"
  by (simp add: state_replay_eq state_A_eq router_defs pending_replay_def ev_replay_response_def
        ev_replay_request_def state_init_def host_ok_def data_replay_def row_A_def row_replay_def
        js_num_def show_nat.simps CRLF_def CR_def LF_def)

text \<open>
  C1. The deadline of the replay fires first: the correlation is removed and the replay
  row receives the timeout message. A pause event that carries the token arrives
  afterwards; it is not recognised as a replay any more and takes the path of a new
  exchange, so the ledger gains a third, paused row, where the claim says that a late
  completion path leaves the ledger unchanged.
\<close>

theorem late_replay_pause_inserts_row:
  "replayDataStore (timeoutFired 1 state_replay) ''5-0.25'' = None
   \<and> map (\<lambda>r. (id' r, rawResponse r)) (requestsStore (timeoutFired 1 state_replay))
       = [(''N1'', None), (''replay-5'', Some msg_replay_timeout)]
   \<and> map (\<lambda>r. (id' r, status r))
        (requestsStore (onEvent host_ok ev_replay_request (timeoutFired 1 state_replay)))
       = [(''N1'', paused), (''replay-5'', finished), (''N9'', paused)]"
  by (simp add: state_replay_eq state_A_eq router_defs timeoutFired_def cleanupReplayState_def
        ev_replay_request_def state_init_def host_ok_def data_replay_def closure_replay_def
        row_A_def row_replay_def world_off_def or_else_def msg_replay_timeout_def)

text \<open>
  C10. \<open>clear-requests\<close> empties the ledger and broadcasts the empty ledger; the
  correlations, the pending set and the armed timeouts stay as they are. For a
  correlation that is live at that moment, with its deadline armed, each of
  \<open>replay-fetch-success\<close>, \<open>replay-fetch-failed\<close> and the deadline then removes the
  correlation, its timeout and the pending entry of the original id, and changes nothing
  else: the ledger stays empty and nothing is broadcast.
\<close>

theorem clear_requests_keeps_correlations:
  assumes "replayDataStore s token = Some data" "token \<noteq> []"
    and "timeouts s t = Some c" "cl_replayId c = token" "cl_requestDataId c = originalId data"
  shows "clear_requests s = s\<lparr>requestsStore := [], effects := effects s @ [Broadcast []]\<rparr>
     \<and> replay_fetch_success (Some token) response (clear_requests s)
         = (clear_requests s)\<lparr> timeouts := (timeouts s)(timeoutId data := None),
               replayDataStore := (replayDataStore s)(token := None),
               pendingActions := pendingActions s - {originalId data} \<rparr>
     \<and> replay_fetch_failed (Some token) error (clear_requests s)
         = (clear_requests s)\<lparr> timeouts := (timeouts s)(timeoutId data := None),
               replayDataStore := (replayDataStore s)(token := None),
               pendingActions := pendingActions s - {originalId data} \<rparr>
     \<and> timeoutFired t (clear_requests s)
         = (clear_requests s)\<lparr> timeouts := (timeouts s)(t := None, timeoutId data := None),
               replayDataStore := (replayDataStore s)(token := None),
               pendingActions := pendingActions s - {originalId data} \<rparr>"
  using assms
  by (simp add: clear_requests_def replay_fetch_success_def replay_fetch_failed_def
        replay_fetch_done_def timeoutFired_def cleanupReplayState_def emit_def
        broadcastRequestsUpdate_def Let_def)

theorem clear_requests_keeps_correlations_witness:
  "clear_requests state_replay
      = state_replay\<lparr>requestsStore := [], effects := effects state_replay @ [Broadcast []]\<rparr>
   \<and> replay_fetch_success (Some ''5-0.25'') (Some ''HTTP/1.1 200 OK'') (clear_requests state_replay)
      = (clear_requests state_replay)\<lparr>
            timeouts := (timeouts state_replay)(timeoutId data_replay := None),
            replayDataStore := (replayDataStore state_replay)(''5-0.25'' := None),
            pendingActions := pendingActions state_replay - {originalId data_replay} \<rparr>
   \<and> replay_fetch_failed (Some ''5-0.25'') (Some ''Failed to fetch'') (clear_requests state_replay)
      = (clear_requests state_replay)\<lparr>
            timeouts := (timeouts state_replay)(timeoutId data_replay := None),
            replayDataStore := (replayDataStore state_replay)(''5-0.25'' := None),
            pendingActions := pendingActions state_replay - {originalId data_replay} \<rparr>
   \<and> timeoutFired 1 (clear_requests state_replay)
      = (clear_requests state_replay)\<lparr>
            timeouts := (timeouts state_replay)(1 := None, timeoutId data_replay := None),
            replayDataStore := (replayDataStore state_replay)(''5-0.25'' := None),
            pendingActions := pendingActions state_replay - {originalId data_replay} \<rparr>"
  by (rule clear_requests_keeps_correlations [where c = closure_replay])
     (simp_all add: state_replay_eq data_replay_def closure_replay_def)

section \<open>Broadcast after a mutation\<close>

text \<open>
  C8. A pause event of the request stage for the exchange \<open>N1\<close>, which has a row, with a
  new request id: the row's request id is rebound and no broadcast follows. With a
  redirect response the step makes no call at all; without one its only call is the
  consultation of the proxy reconciler, made before the mutation.
\<close>

theorem rebind_without_broadcast:
  "requestsStore state_A = [row_A]
   \<and> requestsStore (onEvent host_ok ev_redirect_A state_A) = [row_A\<lparr>requestId := ''R2''\<rparr>]
   \<and> new_effects state_A (onEvent host_ok ev_redirect_A state_A) = []
   \<and> requestsStore (onEvent host_ok ev_repause_A state_A) = [row_A\<lparr>requestId := ''R2''\<rparr>]
   \<and> new_effects state_A (onEvent host_ok ev_repause_A state_A) = [ApplyProxyToRequest ''R2'']"
  by (simp add: state_A_eq router_defs new_effects_def ev_redirect_A_def ev_repause_A_def
        ev_request_A_def state_init_def req_A_def host_ok_def row_A_def world_off_def)

end
